theory Spec2Isabelle
  imports Main
begin

section \<open>Values, errors and observable events\<close>

text \<open>
  The loader \<^verbatim>\<open>csv_to_iceberg.py\<close> is glue around four libraries: the YAML and JSON
  parsers, pandas and the Trino client. The libraries are not part of the program; they
  enter the model as the fields of an environment record, and every call the program makes
  on the connection or the console is logged as an event, in program order.

  Python values that the program handles without looking inside them (configuration
  entries, data-frame cells, bound statement parameters) share one datatype. A dictionary
  is an association list read with \<open>map_of\<close>. \<open>PNaN\<close> is the float \<^verbatim>\<open>nan\<close>, which
  pandas puts where a CSV line has no field.
\<close>

datatype pyval =
    PNone
  | PBool bool
  | PInt int
  | PStr string
  | PNaN
  | PDate int int int
  | PList "pyval list"
  | PDict "(string \<times> pyval) list"

text \<open>
  The exceptions that can leave a function of the program. \<open>FileNotFoundError\<close> and
  \<open>ValueError\<close> carry the message the source formats; the remaining ones stand for
  exceptions raised inside a library call.
\<close>

datatype error =
    FileNotFoundError string
  | ValueError string
  | AttributeError
  | IndexError
  | YAMLError
  | JSONDecodeError
  | CsvReadError

text \<open>
  What a run does to the outside world. \<open>Connect\<close> holds the five keyword arguments of
  \<^verbatim>\<open>trino.dbapi.connect\<close> (host, port, user, catalog, schema); \<open>Execute\<close> holds the
  statement text and its bound parameters. The four \<open>Print\<close> events are the four
  \<^verbatim>\<open>print\<close> calls, each holding the values its f-string interpolates:
  \<^item> \<open>Print_using_columns cols\<close>: \<^verbatim>\<open>Using table columns: {cols}\<close>
  \<^item> \<open>Print_warning t c\<close>: \<^verbatim>\<open>Warning: Table has {t} columns but CSV only has {c} columns\<close>
  \<^item> \<open>Print_success csv tbl\<close>: \<^verbatim>\<open>Data from {csv} inserted into {tbl} successfully!\<close>
  \<^item> \<open>Print_inserted r c\<close>: \<^verbatim>\<open>Inserted {r} rows with {c} columns\<close>
\<close>

datatype event =
    Connect pyval pyval pyval pyval pyval
  | Execute string "pyval list"
  | Print_using_columns "string list"
  | Print_warning nat nat
  | Commit
  | Cursor_close
  | Conn_close
  | Print_success string string
  | Print_inserted nat nat

text \<open>
  A data frame as the program sees it: \<^verbatim>\<open>len(df.columns)\<close> and the rows that
  \<^verbatim>\<open>df.iterrows()\<close> yields. The header names are never read (line 81 overwrites them
  with positions), so they are not stored.
\<close>

record dataframe =
  ncols :: nat
  rows :: "pyval list list"

text \<open>
  pandas keeps a frame rectangular: every row that \<^verbatim>\<open>iterrows\<close> yields has
  \<^verbatim>\<open>len(df.columns)\<close> entries. A CSV line with fewer fields than the header is
  filled up with \<open>PNaN\<close> when the file is read.
\<close>

definition rectangular :: "dataframe \<Rightarrow> bool" where
  "rectangular df = list_all (\<lambda>row. length row = ncols df) (rows df)"

text \<open>
  The environment of a run.
  \<^item> \<open>file_contents p\<close>: the text of the file at \<open>p\<close>, \<open>None\<close> when
    \<^verbatim>\<open>os.path.exists(p)\<close> is false. A path that exists is a file that can be read.
  \<^item> \<open>yaml_safe_load\<close>, \<open>json_load\<close>: the two parsers, \<open>None\<close> when they raise.
  \<^item> \<open>pd_read_csv p\<close>: the frame read from \<open>p\<close>, \<open>None\<close> when pandas raises.
  \<^item> \<open>cursor_fetchall q\<close>: the rows the cursor delivers after executing the query \<open>q\<close>.
  \<^item> \<open>pd_to_datetime_date col\<close>: \<^verbatim>\<open>pd.to_datetime(col).dt.date\<close>, \<open>None\<close> when
    it raises.
  The engine accepts every statement, commit and close.
\<close>

record env =
  file_contents :: "string \<Rightarrow> string option"
  yaml_safe_load :: "string \<Rightarrow> pyval option"
  json_load :: "string \<Rightarrow> pyval option"
  pd_read_csv :: "string \<Rightarrow> dataframe option"
  cursor_fetchall :: "string \<Rightarrow> string list list"
  pd_to_datetime_date :: "pyval list \<Rightarrow> pyval list option"

text \<open>
  \<^verbatim>\<open>pd.to_datetime(col).dt.date\<close> is a series on the index of \<open>col\<close>: when it
  succeeds it has one value for every value of \<open>col\<close>.
\<close>

definition keeps_index :: "env \<Rightarrow> bool" where
  "keeps_index env =
     (\<forall>col dates. pd_to_datetime_date env col = Some dates \<longrightarrow> length dates = length col)"

section \<open>String helpers of the Python runtime\<close>

text \<open>\<^verbatim>\<open>str.lower\<close> on ASCII text.\<close>

definition lower_char :: "char \<Rightarrow> char" where
  "lower_char c =
     (let n = (of_char c :: nat)
      in if 65 \<le> n \<and> n \<le> 90 then char_of (n + 32) else c)"

definition str_lower :: "string \<Rightarrow> string" where
  "str_lower s = map lower_char s"

text \<open>\<^verbatim>\<open>sub in s\<close> on strings: \<open>sub\<close> occurs in \<open>s\<close> as a contiguous block.\<close>

fun starts_with :: "string \<Rightarrow> string \<Rightarrow> bool" where
  "starts_with [] s = True"
| "starts_with (p # ps) [] = False"
| "starts_with (p # ps) (c # cs) = (p = c \<and> starts_with ps cs)"

fun str_contains :: "string \<Rightarrow> string \<Rightarrow> bool" where
  "str_contains sub [] = (sub = [])"
| "str_contains sub (c # cs) = (starts_with sub (c # cs) \<or> str_contains sub cs)"

text \<open>\<^verbatim>\<open>s.split(sep)\<close> for a one-character separator: always at least one part.\<close>

fun str_split :: "char \<Rightarrow> string \<Rightarrow> string list" where
  "str_split sep [] = [[]]"
| "str_split sep (c # cs) =
     (if c = sep then [] # str_split sep cs
      else (case str_split sep cs of
              [] \<Rightarrow> [[c]]
            | p # ps \<Rightarrow> (c # p) # ps))"

text \<open>\<^verbatim>\<open>sep.join(parts)\<close>.\<close>

fun str_join :: "string \<Rightarrow> string list \<Rightarrow> string" where
  "str_join sep [] = []"
| "str_join sep [p] = p"
| "str_join sep (p # q # ps) = p @ sep @ str_join sep (q # ps)"

text \<open>\<^verbatim>\<open>s.rfind(c)\<close>: the last position of \<open>c\<close>, or \<open>-1\<close>.\<close>

definition rfind :: "string \<Rightarrow> char \<Rightarrow> int" where
  "rfind s c =
     (case filter (\<lambda>i. s ! i = c) (rev [0..<length s]) of
        [] \<Rightarrow> - 1
      | i # _ \<Rightarrow> int i)"

text \<open>
  \<^verbatim>\<open>os.path.splitext\<close> of \<^verbatim>\<open>posixpath\<close>: the extension starts at the last dot of the
  last path component, unless only dots precede it there.
\<close>

definition splitext :: "string \<Rightarrow> string \<times> string" where
  "splitext p =
     (let sepIndex = rfind p (CHR ''/'');
          dotIndex = rfind p (CHR ''.'')
      in if dotIndex > sepIndex
            \<and> list_ex (\<lambda>k. p ! k \<noteq> CHR ''.'') [nat (sepIndex + 1)..<nat dotIndex]
         then (take (nat dotIndex) p, drop (nat dotIndex) p)
         else (p, []))"

text \<open>\<^verbatim>\<open>d.get(key, default)\<close>; an object that is no dictionary has no \<^verbatim>\<open>get\<close>.\<close>

fun py_get :: "pyval \<Rightarrow> string \<Rightarrow> pyval \<Rightarrow> error + pyval" where
  "py_get (PDict kvs) key dflt =
     Inr (case map_of kvs key of None \<Rightarrow> dflt | Some v \<Rightarrow> v)"
| "py_get _ key dflt = Inl AttributeError"

section \<open>The config loader (lines 9 to 23)\<close>

definition load_config :: "env \<Rightarrow> string \<Rightarrow> error + pyval" where
  "load_config env config_path =
     (case file_contents env config_path of
        None \<Rightarrow> Inl (FileNotFoundError (''Config file not found: '' @ config_path))
      | Some text \<Rightarrow>
          (let file_ext = str_lower (snd (splitext config_path))
           in if file_ext = ''.yaml'' \<or> file_ext = ''.yml'' then
                (case yaml_safe_load env text of
                   None \<Rightarrow> Inl YAMLError
                 | Some v \<Rightarrow> Inr v)
              else if file_ext = ''.json'' then
                (case json_load env text of
                   None \<Rightarrow> Inl JSONDecodeError
                 | Some v \<Rightarrow> Inr v)
              else Inl (ValueError (''Unsupported config file format: '' @ file_ext
                                      @ ''. Use .yaml, .yml, or .json''))))"

section \<open>The schema discoverer (lines 25 to 50)\<close>

text \<open>
  Lines 28 to 33. The tuple assignment \<^verbatim>\<open>schema, table = table_name.split('.')\<close>
  needs exactly two parts; with more it raises \<^verbatim>\<open>ValueError\<close>.
\<close>

definition parse_table_name :: "string \<Rightarrow> error + (string option \<times> string)" where
  "parse_table_name table_name =
     (if CHR ''.'' \<in> set table_name then
        (case str_split (CHR ''.'') table_name of
           [schema, table] \<Rightarrow> Inr (Some schema, table)
         | [_] \<Rightarrow> Inl (ValueError ''not enough values to unpack (expected 2, got 1)'')
         | _ \<Rightarrow> Inl (ValueError ''too many values to unpack (expected 2)''))
      else Inr (None, table_name))"

text \<open>Lines 36 to 42: the metadata query. An absent or empty schema adds no condition.\<close>

definition columns_query :: "string option \<Rightarrow> string \<Rightarrow> string" where
  "columns_query schema table =
     (let schema_condition =
            (case schema of
               None \<Rightarrow> []
             | Some s \<Rightarrow> if s = [] then [] else ''AND table_schema = '' @ [CHR 0x27] @ s @ [CHR 0x27])
      in [CHR 0x0A] @ ''    SELECT column_name '' @ [CHR 0x0A]
         @ ''    FROM information_schema.columns '' @ [CHR 0x0A]
         @ ''    WHERE table_name = '' @ [CHR 0x27] @ table @ [CHR 0x27] @ '' '' @ schema_condition
         @ [CHR 0x0A] @ ''    ORDER BY ordinal_position'' @ [CHR 0x0A] @ ''    '')"

text \<open>Line 45: \<^verbatim>\<open>[row[0] for row in cursor.fetchall()]\<close>.\<close>

fun first_fields :: "string list list \<Rightarrow> error + string list" where
  "first_fields [] = Inr []"
| "first_fields ([] # rest) = Inl IndexError"
| "first_fields ((x # _) # rest) =
     (case first_fields rest of Inl e \<Rightarrow> Inl e | Inr xs \<Rightarrow> Inr (x # xs))"

definition get_table_columns :: "env \<Rightarrow> string \<Rightarrow> event list \<times> (error + string list)" where
  "get_table_columns env table_name =
     (case parse_table_name table_name of
        Inl e \<Rightarrow> ([], Inl e)
      | Inr (schema, table) \<Rightarrow>
          (let query = columns_query schema table
           in (case first_fields (cursor_fetchall env query) of
                 Inl e \<Rightarrow> ([Execute query []], Inl e)
               | Inr columns \<Rightarrow>
                   if columns = [] then
                     ([Execute query []],
                      Inl (ValueError (''Table '' @ table_name @ '' not found or has no columns'')))
                   else ([Execute query []], Inr columns))))"

section \<open>The row inserter (lines 52 to 115)\<close>

text \<open>
  Lines 62 to 68: the keyword arguments of \<^verbatim>\<open>trino.dbapi.connect\<close>, read from the
  \<^verbatim>\<open>trino\<close> section in the order host, port, user, catalog, schema.
\<close>

definition connect_args :: "pyval \<Rightarrow> error + event" where
  "connect_args trino_config =
     (case py_get trino_config ''host'' (PStr ''localhost'') of
        Inl e \<Rightarrow> Inl e
      | Inr host \<Rightarrow>
     (case py_get trino_config ''port'' (PInt 8080) of
        Inl e \<Rightarrow> Inl e
      | Inr port \<Rightarrow>
     (case py_get trino_config ''user'' (PStr ''trino'') of
        Inl e \<Rightarrow> Inl e
      | Inr user \<Rightarrow>
     (case py_get trino_config ''catalog'' (PStr ''iceberg'') of
        Inl e \<Rightarrow> Inl e
      | Inr catalog \<Rightarrow>
     (case py_get trino_config ''schema'' (PStr ''default'') of
        Inl e \<Rightarrow> Inl e
      | Inr schema \<Rightarrow> Inr (Connect host port user catalog schema))))))"

text \<open>Lines 76 to 78: the warning and the truncated column list.\<close>

definition truncate_columns :: "string list \<Rightarrow> dataframe \<Rightarrow> event list \<times> string list" where
  "truncate_columns table_columns df =
     (if length table_columns > ncols df
      then ([Print_warning (length table_columns) (ncols df)], take (ncols df) table_columns)
      else ([], table_columns))"

text \<open>
  \<^verbatim>\<open>df[i]\<close> read and \<^verbatim>\<open>df[i] = values\<close> written, on a frame whose columns are
  labelled by position (line 81). The values written are a series on the frame's own index,
  one for each row (see \<open>keeps_index\<close>).
\<close>

definition get_column :: "dataframe \<Rightarrow> nat \<Rightarrow> pyval list" where
  "get_column df i = map (\<lambda>row. row ! i) (rows df)"

definition set_column :: "dataframe \<Rightarrow> nat \<Rightarrow> pyval list \<Rightarrow> dataframe" where
  "set_column df i vals = df\<lparr>rows := map (\<lambda>(row, v). row[i := v]) (zip (rows df) vals)\<rparr>"

text \<open>
  Lines 84 to 90: the loop over \<^verbatim>\<open>enumerate(table_columns)\<close>. The bare
  \<^verbatim>\<open>except: pass\<close> turns every failure of the conversion into "leave the frame as it is".
\<close>

fun convert_date_columns :: "env \<Rightarrow> (nat \<times> string) list \<Rightarrow> dataframe \<Rightarrow> dataframe" where
  "convert_date_columns env [] df = df"
| "convert_date_columns env ((col_idx, col_name) # rest) df =
     convert_date_columns env rest
       (if str_contains ''date'' (str_lower col_name) \<and> col_idx < ncols df then
          (case pd_to_datetime_date env (get_column df col_idx) of
             None \<Rightarrow> df
           | Some dates \<Rightarrow> set_column df col_idx dates)
        else df)"

text \<open>Lines 93, 94 and 102 to 105: the statement text, the same for every row.\<close>

definition insert_query :: "string \<Rightarrow> string list \<Rightarrow> string" where
  "insert_query table_name table_columns =
     (let table_column_str =
            str_join '', '' (map (\<lambda>col. [CHR 0x22] @ col @ [CHR 0x22]) table_columns);
          placeholder_str = str_join '', '' (map (\<lambda>_. ''?'') table_columns)
      in [CHR 0x0A] @ ''        INSERT INTO '' @ table_name @ '' ('' @ table_column_str @ '')''
         @ [CHR 0x0A] @ ''        VALUES ('' @ placeholder_str @ '')''
         @ [CHR 0x0A] @ ''        '')"

text \<open>Line 100: one value per bound column, \<^verbatim>\<open>None\<close> where the row has no such position.\<close>

definition row_values :: "pyval list \<Rightarrow> nat \<Rightarrow> pyval list" where
  "row_values row n = map (\<lambda>i. if i < length row then row ! i else PNone) [0..<n]"

text \<open>Lines 97 to 107: one \<^verbatim>\<open>execute\<close> per row; the counter is threaded through.\<close>

fun insert_rows :: "string \<Rightarrow> nat \<Rightarrow> pyval list list \<Rightarrow> nat \<Rightarrow> event list \<times> nat" where
  "insert_rows query n [] rows_inserted = ([], rows_inserted)"
| "insert_rows query n (row # rest) rows_inserted =
     (let values = row_values row n;
          (evs, total) = insert_rows query n rest (rows_inserted + 1)
      in (Execute query values # evs, total))"

text \<open>
  The whole run: the events up to the point where it ends, and how it ends. An exception
  leaves the events logged so far.
\<close>

definition insert_csv_to_iceberg ::
  "env \<Rightarrow> string \<Rightarrow> string \<Rightarrow> string \<Rightarrow> event list \<times> (error + unit)" where
  "insert_csv_to_iceberg env csv_path table_name config_path =
     (case load_config env config_path of
        Inl e \<Rightarrow> ([], Inl e)
      | Inr config \<Rightarrow>
     (case py_get config ''trino'' (PDict []) of
        Inl e \<Rightarrow> ([], Inl e)
      | Inr trino_config \<Rightarrow>
     (case pd_read_csv env csv_path of
        None \<Rightarrow> ([], Inl CsvReadError)
      | Some df \<Rightarrow>
     (case connect_args trino_config of
        Inl e \<Rightarrow> ([], Inl e)
      | Inr conn \<Rightarrow>
     (case get_table_columns env table_name of
        (evs1, Inl e) \<Rightarrow> (conn # evs1, Inl e)
      | (evs1, Inr discovered) \<Rightarrow>
          (let (warn, table_columns) = truncate_columns discovered df;
               df' = convert_date_columns env (enumerate 0 table_columns) df;
               query = insert_query table_name table_columns;
               (evs2, rows_inserted) = insert_rows query (length table_columns) (rows df') 0
           in (conn # evs1 @ [Print_using_columns discovered] @ warn @ evs2
                 @ [Commit, Cursor_close, Conn_close,
                    Print_success csv_path table_name,
                    Print_inserted rows_inserted (length table_columns)],
               Inr ())))))))"

section \<open>A small concrete environment\<close>

text \<open>
  Three configuration files (the text \<^verbatim>\<open>{}\<close> is the empty mapping in YAML and in JSON
  alike), three CSV files and three tables, used to run the statements below on concrete
  inputs. The frame of \<^verbatim>\<open>short.csv\<close> is what pandas delivers for a header of two
  names and the lines \<^verbatim>\<open>1,A\<close> and \<^verbatim>\<open>2\<close>: integers in the first column, and
  \<open>PNaN\<close> where the second line has no field.
\<close>

definition example_config :: pyval where
  "example_config =
     PDict [(''trino'', PDict [(''host'', PStr ''h''), (''port'', PInt 1), (''user'', PStr ''u''),
                               (''catalog'', PStr ''c''), (''schema'', PStr ''s'')])]"

definition example_env :: env where
  "example_env =
     \<lparr>file_contents = (\<lambda>p.
          if p = ''trino_config.yaml''
            then Some ''trino: {host: h, port: 1, user: u, catalog: c, schema: s}''
          else if p = ''Empty.YML'' \<or> p = ''empty.json'' \<or> p = ''notes.TXT'' then Some ''{}''
          else None),
      yaml_safe_load = (\<lambda>t.
          if t = ''{}'' then Some (PDict [])
          else if t = ''trino: {host: h, port: 1, user: u, catalog: c, schema: s}''
            then Some example_config
          else None),
      json_load = (\<lambda>t. if t = ''{}'' then Some (PDict []) else None),
      pd_read_csv = (\<lambda>p.
          if p = ''purchases.csv''
            then Some \<lparr>ncols = 2,
                       rows = [[PInt 1, PStr ''A''], [PInt 2, PStr ''B''], [PInt 3, PStr ''C'']]\<rparr>
          else if p = ''short.csv''
            then Some \<lparr>ncols = 2, rows = [[PInt 1, PStr ''A''], [PInt 2, PNaN]]\<rparr>
          else if p = ''trades.csv''
            then Some \<lparr>ncols = 2,
                       rows = [[PStr ''2023-01-15'', PStr ''not-a-date''],
                               [PStr ''2023-01-16'', PStr ''2023-01-17'']]\<rparr>
          else None),
      cursor_fetchall = (\<lambda>q.
          if q = columns_query None ''t'' then [[''a''], [''b'']]
          else if q = columns_query None ''people'' then [[''id''], [''name'']]
          else if q = columns_query (Some ''sales'') ''trades''
            then [[''Trade_Date''], [''settle_date''], [''note'']]
          else []),
      pd_to_datetime_date = (\<lambda>col.
          if col = [PStr ''2023-01-15'', PStr ''2023-01-16'']
            then Some [PDate 2023 1 15, PDate 2023 1 16]
          else None)\<rparr>"

section \<open>Auxiliary facts\<close>

subsection \<open>Strings\<close>

lemma str_split_no_sep: "sep \<notin> set s \<Longrightarrow> str_split sep s = [s]"
  by (induction s) auto

lemma str_split_first_sep:
  "sep \<notin> set s \<Longrightarrow> str_split sep (s @ sep # t) = s # str_split sep t"
  by (induction s) auto

lemma str_split_one_sep:
  "sep \<notin> set s \<Longrightarrow> sep \<notin> set t \<Longrightarrow> str_split sep (s @ sep # t) = [s, t]"
  by (simp add: str_split_first_sep str_split_no_sep)

lemma no_date_in_a: "str_contains ''date'' (str_lower ''a'') = False"
  by code_simp

lemma no_date_in_b: "str_contains ''date'' (str_lower ''b'') = False"
  by code_simp



subsection \<open>The metadata query and its rows\<close>

lemma first_fields_Nil_iff: "first_fields rs = Inr [] \<longleftrightarrow> rs = []"
proof (cases rs)
  case Nil
  then show ?thesis by simp
next
  case (Cons r rest)
  then show ?thesis by (cases r) (auto split: sum.splits)
qed

lemma first_fields_error: "first_fields rs = Inl e \<Longrightarrow> e = IndexError"
  by (induction rs arbitrary: e rule: first_fields.induct) (auto split: sum.splits)

lemma first_fields_map_hd:
  "list_all (\<lambda>r. r \<noteq> []) rs \<Longrightarrow> first_fields rs = Inr (map hd rs)"
  by (induction rs rule: first_fields.induct) auto

lemma parse_table_name_error:
  "parse_table_name name = Inl e \<Longrightarrow>
     e = ValueError ''too many values to unpack (expected 2)'' \<or>
     e = ValueError ''not enough values to unpack (expected 2, got 1)''"
  unfolding parse_table_name_def
  by (simp split: if_splits list.splits)

lemma unpack_msg_distinct:
  "ValueError ''too many values to unpack (expected 2)''
     \<noteq> ValueError (''Table '' @ name @ rest)"
  "ValueError ''not enough values to unpack (expected 2, got 1)''
     \<noteq> ValueError (''Table '' @ name @ rest)"
  by simp_all

lemma get_table_columns_found:
  assumes "parse_table_name table_name = Inr (schema, table)"
    and "first_fields (cursor_fetchall env (columns_query schema table)) = Inr columns"
    and "columns \<noteq> []"
  shows "get_table_columns env table_name
           = ([Execute (columns_query schema table) []], Inr columns)"
  using assms by (simp add: get_table_columns_def Let_def)

lemma get_table_columns_nonempty: "snd (get_table_columns env name) \<noteq> Inr []"
  by (simp add: get_table_columns_def Let_def split: sum.splits prod.splits)

lemma get_table_columns_not_found_iff:
  "snd (get_table_columns env name)
      = Inl (ValueError (''Table '' @ name @ '' not found or has no columns''))
    \<longleftrightarrow> (\<exists>schema table. parse_table_name name = Inr (schema, table) \<and>
                          cursor_fetchall env (columns_query schema table) = [])"
proof (cases "parse_table_name name")
  case (Inl e)
  have "e \<noteq> ValueError (''Table '' @ name @ '' not found or has no columns'')"
    using parse_table_name_error [OF Inl] unpack_msg_distinct by auto
  then show ?thesis
    using Inl by (simp add: get_table_columns_def)
next
  case (Inr st)
  obtain schema table where st: "st = (schema, table)" by (cases st)
  have p: "parse_table_name name = Inr (schema, table)" using Inr st by simp
  show ?thesis
  proof (cases "first_fields (cursor_fetchall env (columns_query schema table))")
    case (Inl e)
    have e: "e = IndexError" using Inl by (rule first_fields_error)
    have ne: "cursor_fetchall env (columns_query schema table) \<noteq> []"
      using Inl by auto
    have "get_table_columns env name
            = ([Execute (columns_query schema table) []], Inl IndexError)"
      using p Inl e by (simp add: get_table_columns_def Let_def)
    then show ?thesis using p ne by simp
  next
    case cols: (Inr cols)
    have c: "cols = [] \<longleftrightarrow> cursor_fetchall env (columns_query schema table) = []"
      using first_fields_Nil_iff [of "cursor_fetchall env (columns_query schema table)"] cols
      by simp
    have "snd (get_table_columns env name) =
            (if cols = []
             then Inl (ValueError (''Table '' @ name @ '' not found or has no columns''))
             else Inr cols)"
      using p cols by (simp add: get_table_columns_def Let_def)
    then show ?thesis using p c by simp
  qed
qed

lemma get_table_columns_rows:
  "parse_table_name name = Inr (schema, table) \<Longrightarrow>
   cursor_fetchall env (columns_query schema table) = rs \<Longrightarrow>
   rs \<noteq> [] \<Longrightarrow> list_all (\<lambda>r. r \<noteq> []) rs \<Longrightarrow>
     get_table_columns env name = ([Execute (columns_query schema table) []], Inr (map hd rs))"
  by (simp add: get_table_columns_def Let_def first_fields_map_hd)

lemma columns_query_order_by:
  "\<exists>pre. columns_query schema table
          = pre @ ''ORDER BY ordinal_position'' @ [CHR 0x0A] @ ''    ''"
  by (rule exI [where x = "[CHR 0x0A] @ ''    SELECT column_name '' @ [CHR 0x0A]
         @ ''    FROM information_schema.columns '' @ [CHR 0x0A]
         @ ''    WHERE table_name = '' @ [CHR 0x27] @ table @ [CHR 0x27] @ '' ''
         @ (case schema of None \<Rightarrow> []
             | Some s \<Rightarrow> if s = [] then []
                         else ''AND table_schema = '' @ [CHR 0x27] @ s @ [CHR 0x27])
         @ [CHR 0x0A] @ ''    ''"])
     (simp add: columns_query_def)

subsection \<open>Rows and frames\<close>

lemma insert_rows_eq:
  "insert_rows query n rs k =
     (map (\<lambda>row. Execute query (row_values row n)) rs, k + length rs)"
  by (induction rs arbitrary: k) (simp_all add: Let_def)

lemma length_row_values: "length (row_values row n) = n"
  by (simp add: row_values_def)

lemma row_values_long:
  "n \<le> length row \<Longrightarrow> row_values row n = take n row"
  by (auto simp: row_values_def list_eq_iff_nth_eq)


lemma ncols_set_column: "ncols (set_column df i vals) = ncols df"
  by (simp add: set_column_def)

lemma rectangular_set_column: "rectangular df \<Longrightarrow> rectangular (set_column df i vals)"
  by (auto simp: rectangular_def set_column_def list_all_iff dest: set_zip_leftD)

lemma ncols_convert_date_columns: "ncols (convert_date_columns env ps df) = ncols df"
  by (induction env ps df rule: convert_date_columns.induct)
     (auto simp: ncols_set_column split: option.splits)

lemma rectangular_convert_date_columns:
  "rectangular df \<Longrightarrow> rectangular (convert_date_columns env ps df)"
  by (induction env ps df rule: convert_date_columns.induct)
     (auto simp: rectangular_set_column split: option.splits)

lemma length_get_column: "length (get_column df i) = length (rows df)"
  by (simp add: get_column_def)

lemma length_rows_set_column:
  "length vals = length (rows df) \<Longrightarrow> length (rows (set_column df i vals)) = length (rows df)"
  by (simp add: set_column_def)

lemma get_column_set_column_same:
  assumes "rectangular df" and "i < ncols df" and "length vals = length (rows df)"
  shows "get_column (set_column df i vals) i = vals"
proof (rule nth_equalityI)
  show "length (get_column (set_column df i vals) i) = length vals"
    using assms(3) by (simp add: get_column_def set_column_def)
next
  fix k
  assume "k < length (get_column (set_column df i vals) i)"
  then have k: "k < length (rows df)" "k < length vals"
    using assms(3) by (simp_all add: get_column_def set_column_def)
  then have "length (rows df ! k) = ncols df"
    using assms(1) by (simp add: rectangular_def list_all_length)
  then show "get_column (set_column df i vals) i ! k = vals ! k"
    using k assms(2) by (simp add: get_column_def set_column_def)
qed

lemma get_column_set_column_other:
  assumes "i \<noteq> j" and "length vals = length (rows df)"
  shows "get_column (set_column df j vals) i = get_column df i"
proof (rule nth_equalityI)
  show "length (get_column (set_column df j vals) i) = length (get_column df i)"
    using assms(2) by (simp add: get_column_def set_column_def)
next
  fix k
  assume "k < length (get_column (set_column df j vals) i)"
  then have k: "k < length (rows df)" "k < length vals"
    using assms(2) by (simp_all add: get_column_def set_column_def)
  then show "get_column (set_column df j vals) i ! k = get_column df i ! k"
    using assms(1) by (simp add: get_column_def set_column_def)
qed

lemma keeps_index_length:
  "keeps_index env \<Longrightarrow> pd_to_datetime_date env (get_column df i) = Some dates \<Longrightarrow>
     length dates = length (rows df)"
  by (simp add: keeps_index_def length_get_column)

lemma convert_date_columns_other:
  "keeps_index env \<Longrightarrow> i \<notin> fst ` set ps \<Longrightarrow>
     get_column (convert_date_columns env ps df) i = get_column df i"
proof (induction env ps df rule: convert_date_columns.induct)
  case (1 env df)
  then show ?case by simp
next
  case (2 env col_idx col_name rest df)
  let ?df1 = "if str_contains ''date'' (str_lower col_name) \<and> col_idx < ncols df then
          (case pd_to_datetime_date env (get_column df col_idx) of
             None \<Rightarrow> df
           | Some dates \<Rightarrow> set_column df col_idx dates)
        else df"
  have ne: "i \<noteq> col_idx" using "2.prems"(2) by auto
  have rest: "i \<notin> fst ` set rest" using "2.prems"(2) by auto
  have "get_column (convert_date_columns env rest ?df1) i = get_column ?df1 i"
    using "2.IH" [OF "2.prems"(1) rest] .
  moreover have "get_column ?df1 i = get_column df i"
    using ne "2.prems"(1)
    by (auto simp: get_column_set_column_other keeps_index_length split: option.splits)
  ultimately show ?case by simp
qed

lemma convert_date_columns_enumerate:
  assumes "keeps_index env"
  shows "rectangular df \<Longrightarrow> n \<le> i \<Longrightarrow> i < n + length cols \<Longrightarrow> i < ncols df \<Longrightarrow>
     get_column (convert_date_columns env (enumerate n cols) df) i =
       (if str_contains ''date'' (str_lower (cols ! (i - n))) then
          (case pd_to_datetime_date env (get_column df i) of
             None \<Rightarrow> get_column df i
           | Some dates \<Rightarrow> dates)
        else get_column df i)"
proof (induction cols arbitrary: n df)
  case Nil
  then show ?case by simp
next
  case (Cons c cs)
  let ?df1 = "if str_contains ''date'' (str_lower c) \<and> n < ncols df then
          (case pd_to_datetime_date env (get_column df n) of
             None \<Rightarrow> df
           | Some dates \<Rightarrow> set_column df n dates)
        else df"
  have unfold: "convert_date_columns env (enumerate n (c # cs)) df
                  = convert_date_columns env (enumerate (Suc n) cs) ?df1"
    by simp
  have rect1: "rectangular ?df1"
    using Cons.prems(1) by (auto simp: rectangular_set_column split: option.splits)
  have ncols1: "ncols ?df1 = ncols df"
    by (auto simp: ncols_set_column split: option.splits)
  show ?case
  proof (cases "i = n")
    case True
    have "n \<notin> fst ` set (enumerate (Suc n) cs)"
      by (auto simp: in_set_enumerate_eq)
    then have "get_column (convert_date_columns env (enumerate (Suc n) cs) ?df1) n
                 = get_column ?df1 n"
      using assms by (rule convert_date_columns_other [rotated])
    moreover have "get_column ?df1 n =
       (if str_contains ''date'' (str_lower c) then
          (case pd_to_datetime_date env (get_column df n) of
             None \<Rightarrow> get_column df n
           | Some dates \<Rightarrow> dates)
        else get_column df n)"
      using Cons.prems(1,4) True assms
      by (auto simp: get_column_set_column_same keeps_index_length split: option.splits)
    ultimately have "get_column (convert_date_columns env (enumerate (Suc n) cs) ?df1) n =
       (if str_contains ''date'' (str_lower c) then
          (case pd_to_datetime_date env (get_column df n) of
             None \<Rightarrow> get_column df n
           | Some dates \<Rightarrow> dates)
        else get_column df n)"
      by simp
    then show ?thesis
      unfolding unfold True by simp
  next
    case False
    then have gt: "Suc n \<le> i" "i < Suc n + length cs"
      using Cons.prems(2,3) by simp_all
    have other: "get_column ?df1 i = get_column df i"
      using False assms
      by (auto simp: get_column_set_column_other keeps_index_length split: option.splits)
    have idx: "(c # cs) ! (i - n) = cs ! (i - Suc n)"
      using gt by (simp add: nth_Cons')
    have "get_column (convert_date_columns env (enumerate (Suc n) cs) ?df1) i =
       (if str_contains ''date'' (str_lower (cs ! (i - Suc n))) then
          (case pd_to_datetime_date env (get_column ?df1 i) of
             None \<Rightarrow> get_column ?df1 i
           | Some dates \<Rightarrow> dates)
        else get_column ?df1 i)"
      using Cons.IH [OF rect1 gt] Cons.prems(4) ncols1 by simp
    then show ?thesis
      unfolding unfold idx other .
  qed
qed

lemma length_rows_convert_date_columns:
  "keeps_index env \<Longrightarrow> length (rows (convert_date_columns env ps df)) = length (rows df)"
proof (induction env ps df rule: convert_date_columns.induct)
  case (1 env df)
  then show ?case by simp
next
  case (2 env col_idx col_name rest df)
  then show ?case
    by (auto simp: length_rows_set_column keeps_index_length split: option.splits)
qed

subsection \<open>A run that gets past the schema discovery\<close>

lemma run_success:
  assumes "load_config env config_path = Inr config"
    and "py_get config ''trino'' (PDict []) = Inr trino_config"
    and "pd_read_csv env csv_path = Some df"
    and "connect_args trino_config = Inr conn"
    and "get_table_columns env table_name = (evs1, Inr discovered)"
  shows "insert_csv_to_iceberg env csv_path table_name config_path =
     (let table_columns = snd (truncate_columns discovered df);
          df' = convert_date_columns env (enumerate 0 table_columns) df
      in (conn # evs1 @ [Print_using_columns discovered] @ fst (truncate_columns discovered df)
            @ map (\<lambda>row. Execute (insert_query table_name table_columns)
                              (row_values row (length table_columns))) (rows df')
            @ [Commit, Cursor_close, Conn_close, Print_success csv_path table_name,
               Print_inserted (length (rows df')) (length table_columns)],
          Inr ()))"
  using assms
  by (simp add: insert_csv_to_iceberg_def insert_rows_eq Let_def split: prod.splits)

subsection \<open>The concrete environment\<close>

lemma example_load_trino:
  "load_config example_env ''trino_config.yaml'' =
     Inr (PDict [(''trino'', PDict [(''host'', PStr ''h''), (''port'', PInt 1),
                                    (''user'', PStr ''u''), (''catalog'', PStr ''c''),
                                    (''schema'', PStr ''s'')])])"
  by code_simp

lemma example_load_empty: "load_config example_env ''empty.json'' = Inr (PDict [])"
  by code_simp

lemma example_fetch_t:
  "cursor_fetchall example_env (columns_query None ''t'') = [[''a''], [''b'']]"
  by (simp add: example_env_def)


lemma example_fetch_trades:
  "cursor_fetchall example_env (columns_query (Some ''sales'') ''trades'')
     = [[''Trade_Date''], [''settle_date''], [''note'']]"
  by (simp add: example_env_def columns_query_def)

lemma example_csv_purchases:
  "pd_read_csv example_env ''purchases.csv'' =
     Some \<lparr>ncols = 2,
           rows = [[PInt 1, PStr ''A''], [PInt 2, PStr ''B''], [PInt 3, PStr ''C'']]\<rparr>"
  by (simp add: example_env_def)


lemma example_csv_trades:
  "pd_read_csv example_env ''trades.csv'' =
     Some \<lparr>ncols = 2,
           rows = [[PStr ''2023-01-15'', PStr ''not-a-date''],
                   [PStr ''2023-01-16'', PStr ''2023-01-17'']]\<rparr>"
  by (simp add: example_env_def)




lemma date_in_Trade_Date: "str_contains ''date'' (str_lower ''Trade_Date'') = True"
  by code_simp

lemma date_in_settle_date: "str_contains ''date'' (str_lower ''settle_date'') = True"
  by code_simp

lemma example_trades_parse: "parse_table_name ''sales.trades'' = Inr (Some ''sales'', ''trades'')"
  by (simp add: parse_table_name_def)

lemma example_trades_columns:
  "get_table_columns example_env ''sales.trades''
     = ([Execute (columns_query (Some ''sales'') ''trades'') []],
        Inr [''Trade_Date'', ''settle_date'', ''note''])"
  by (rule get_table_columns_found [OF example_trades_parse])
     (simp_all add: example_fetch_trades)

lemma example_trades_converted:
  "convert_date_columns example_env (enumerate 0 [''Trade_Date'', ''settle_date''])
     \<lparr>ncols = 2,
      rows = [[PStr ''2023-01-15'', PStr ''not-a-date''],
              [PStr ''2023-01-16'', PStr ''2023-01-17'']]\<rparr>
   = \<lparr>ncols = 2,
      rows = [[PDate 2023 1 15, PStr ''not-a-date''],
              [PDate 2023 1 16, PStr ''2023-01-17'']]\<rparr>"
  by (simp add: date_in_Trade_Date date_in_settle_date get_column_def set_column_def
        example_env_def)

lemma example_trino_connect:
  "connect_args (PDict [(''host'', PStr ''h''), (''port'', PInt 1), (''user'', PStr ''u''),
                        (''catalog'', PStr ''c''), (''schema'', PStr ''s'')])
     = Inr (Connect (PStr ''h'') (PInt 1) (PStr ''u'') (PStr ''c'') (PStr ''s''))"
  by (simp add: connect_args_def)

lemma example_keeps_index: "keeps_index example_env"
  by (auto simp: keeps_index_def example_env_def split: if_splits)

section \<open>The schema discoverer: parsing the table name\<close>

text \<open>
  C5 (as amended). A table name without a dot is taken whole as the table, with no schema
  (the connection's default applies). A table name with exactly one dot is cut at that dot:
  the text before it is the schema, the text after it is the table.
\<close>

theorem parse_table_name_single_dot:
  "(CHR ''.'' \<notin> set name \<longrightarrow> parse_table_name name = Inr (None, name)) \<and>
   (CHR ''.'' \<notin> set s \<and> CHR ''.'' \<notin> set t \<longrightarrow>
      parse_table_name (s @ ''.'' @ t) = Inr (Some s, t))"
  by (simp add: parse_table_name_def str_split_one_sep)

theorem parse_table_name_single_dot_witness:
  "parse_table_name ''stocks_transactions'' = Inr (None, ''stocks_transactions'') \<and>
   parse_table_name ''sales.orders'' = Inr (Some ''sales'', ''orders'')"
  using parse_table_name_single_dot [of "''stocks_transactions''" "''sales''" "''orders''"]
  by simp

text \<open>
  With two dots the name is not cut at the first one: \<^verbatim>\<open>split\<close> yields three parts and
  the two-name assignment raises.
\<close>

theorem parse_table_name_two_dots_counterexample:
  "parse_table_name ''a.b.c'' = Inl (ValueError ''too many values to unpack (expected 2)'') \<and>
   parse_table_name ''a.b.c'' \<noteq> Inr (Some ''a'', ''b.c'')"
  by (simp add: parse_table_name_def)

section \<open>The config loader\<close>

text \<open>
  C6. A path that does not exist makes the loader fail with \<open>FileNotFoundError\<close>. For a
  path that exists, the lower-cased extension decides: \<^verbatim>\<open>.yaml\<close> and \<^verbatim>\<open>.yml\<close> give
  the YAML parser's answer, \<^verbatim>\<open>.json\<close> the JSON parser's answer, and every other extension
  gives a \<open>ValueError\<close> whose message contains that extension, whatever the file holds.
\<close>

theorem load_config_dispatch:
  "(file_contents env p = None \<longrightarrow>
      load_config env p = Inl (FileNotFoundError (''Config file not found: '' @ p))) \<and>
   (file_contents env p = Some txt \<longrightarrow>
      (let ext = str_lower (snd (splitext p)) in
       (ext = ''.yaml'' \<or> ext = ''.yml'' \<longrightarrow>
          load_config env p =
            (case yaml_safe_load env txt of None \<Rightarrow> Inl YAMLError | Some v \<Rightarrow> Inr v)) \<and>
       (ext = ''.json'' \<longrightarrow>
          load_config env p =
            (case json_load env txt of None \<Rightarrow> Inl JSONDecodeError | Some v \<Rightarrow> Inr v)) \<and>
       (ext \<noteq> ''.yaml'' \<and> ext \<noteq> ''.yml'' \<and> ext \<noteq> ''.json'' \<longrightarrow>
          load_config env p =
            Inl (ValueError (''Unsupported config file format: '' @ ext
                               @ ''. Use .yaml, .yml, or .json'')))))"
  by (simp add: load_config_def Let_def)

theorem load_config_dispatch_witness:
  "load_config example_env ''missing.yaml''
     = Inl (FileNotFoundError ''Config file not found: missing.yaml'') \<and>
   load_config example_env ''Empty.YML'' = Inr (PDict []) \<and>
   load_config example_env ''empty.json'' = Inr (PDict []) \<and>
   load_config example_env ''notes.TXT''
     = Inl (ValueError ''Unsupported config file format: .txt. Use .yaml, .yml, or .json'')"
proof -
  have e1: "str_lower (snd (splitext ''Empty.YML'')) = ''.yml''" by code_simp
  have e2: "str_lower (snd (splitext ''empty.json'')) = ''.json''" by code_simp
  have e3: "str_lower (snd (splitext ''notes.TXT'')) = ''.txt''" by code_simp
  have f0: "file_contents example_env ''missing.yaml'' = None"
    by (simp add: example_env_def)
  have f1: "file_contents example_env ''Empty.YML'' = Some ''{}''"
    by (simp add: example_env_def)
  have f2: "file_contents example_env ''empty.json'' = Some ''{}''"
    by (simp add: example_env_def)
  have f3: "file_contents example_env ''notes.TXT'' = Some ''{}''"
    by (simp add: example_env_def)
  have p1: "yaml_safe_load example_env ''{}'' = Some (PDict [])"
    by (simp add: example_env_def)
  have p2: "json_load example_env ''{}'' = Some (PDict [])"
    by (simp add: example_env_def)
  show ?thesis
    using load_config_dispatch [of example_env "''missing.yaml''" "''{}''"]
          load_config_dispatch [of example_env "''Empty.YML''" "''{}''"]
          load_config_dispatch [of example_env "''empty.json''" "''{}''"]
          load_config_dispatch [of example_env "''notes.TXT''" "''{}''"]
    by (simp add: e1 e2 e3 f0 f1 f2 f3 p1 p2 Let_def)
qed


section \<open>The row inserter: one run from end to end\<close>

text \<open>
  C1. With the section \<^verbatim>\<open>trino: {host: h, port: 1, user: u, catalog: c, schema: s}\<close>,
  the discovered columns \<^verbatim>\<open>[a, b]\<close> of table \<^verbatim>\<open>t\<close> and a frame of three rows of two
  fields, the run connects with these five parameters, asks for the columns, executes the
  same INSERT text three times (columns double-quoted in the discovered order, one
  question mark per column) with the three rows as parameters, then commits once, closes
  the cursor, closes the connection and reports 3 rows and 2 columns.
\<close>

theorem end_to_end_three_rows:
  assumes "load_config env config_path =
             Inr (PDict [(''trino'', PDict [(''host'', PStr h), (''port'', PInt 1),
                                            (''user'', PStr u), (''catalog'', PStr c),
                                            (''schema'', PStr s)])])"
    and "pd_read_csv env csv_path =
           Some \<lparr>ncols = 2, rows = [[x1, y1], [x2, y2], [x3, y3]]\<rparr>"
    and "cursor_fetchall env (columns_query None ''t'') = [[''a''], [''b'']]"
  shows "insert_csv_to_iceberg env csv_path ''t'' config_path =
     (let query = [CHR 0x0A] @ ''        INSERT INTO t ('' @ [CHR 0x22] @ ''a'' @ [CHR 0x22]
                    @ '', '' @ [CHR 0x22] @ ''b'' @ [CHR 0x22] @ '')''
                    @ [CHR 0x0A] @ ''        VALUES (?, ?)'' @ [CHR 0x0A] @ ''        ''
      in ([Connect (PStr h) (PInt 1) (PStr u) (PStr c) (PStr s),
           Execute (columns_query None ''t'') [],
           Print_using_columns [''a'', ''b''],
           Execute query [x1, y1],
           Execute query [x2, y2],
           Execute query [x3, y3],
           Commit, Cursor_close, Conn_close,
           Print_success csv_path ''t'',
           Print_inserted 3 2],
          Inr ()))"
proof -
  have cols: "get_table_columns env ''t''
                = ([Execute (columns_query None ''t'') []], Inr [''a'', ''b''])"
    by (rule get_table_columns_found [where schema = None and table = "''t''"])
       (simp_all add: parse_table_name_def assms(3))
  have conn: "connect_args (PDict [(''host'', PStr h), (''port'', PInt 1), (''user'', PStr u),
                                   (''catalog'', PStr c), (''schema'', PStr s)])
                = Inr (Connect (PStr h) (PInt 1) (PStr u) (PStr c) (PStr s))"
    by (simp add: connect_args_def)
  have rv: "\<And>x y. row_values [x, y] (Suc (Suc 0)) = [x, y]"
    by (simp add: row_values_def)
  show ?thesis
    by (simp add: run_success [OF assms(1) _ assms(2) conn cols]
          truncate_columns_def no_date_in_a no_date_in_b insert_query_def rv Let_def)
qed

theorem end_to_end_three_rows_witness:
  "insert_csv_to_iceberg example_env ''purchases.csv'' ''t'' ''trino_config.yaml'' =
     (let query = [CHR 0x0A] @ ''        INSERT INTO t ('' @ [CHR 0x22] @ ''a'' @ [CHR 0x22]
                    @ '', '' @ [CHR 0x22] @ ''b'' @ [CHR 0x22] @ '')''
                    @ [CHR 0x0A] @ ''        VALUES (?, ?)'' @ [CHR 0x0A] @ ''        ''
      in ([Connect (PStr ''h'') (PInt 1) (PStr ''u'') (PStr ''c'') (PStr ''s''),
           Execute (columns_query None ''t'') [],
           Print_using_columns [''a'', ''b''],
           Execute query [PInt 1, PStr ''A''],
           Execute query [PInt 2, PStr ''B''],
           Execute query [PInt 3, PStr ''C''],
           Commit, Cursor_close, Conn_close,
           Print_success ''purchases.csv'' ''t'',
           Print_inserted 3 2],
          Inr ()))"
  by (rule end_to_end_three_rows [OF example_load_trino example_csv_purchases example_fetch_t])

section \<open>The row inserter: a CSV line with fewer fields\<close>




section \<open>The row inserter: a configuration without a trino section\<close>

text \<open>
  C9. When the loaded configuration is a mapping without the key \<^verbatim>\<open>trino\<close> and the CSV
  file can be read, the first thing the run does is to connect with host
  \<^verbatim>\<open>localhost\<close>, port 8080, user \<^verbatim>\<open>trino\<close>, catalog \<^verbatim>\<open>iceberg\<close> and schema
  \<^verbatim>\<open>default\<close>; from there on it fails only if the schema discovery fails.
\<close>

theorem missing_trino_section_defaults:
  assumes "load_config env config_path = Inr (PDict kvs)"
    and "map_of kvs ''trino'' = None"
    and "pd_read_csv env csv_path = Some df"
  shows "(\<exists>evs. fst (insert_csv_to_iceberg env csv_path table_name config_path) =
            Connect (PStr ''localhost'') (PInt 8080) (PStr ''trino'') (PStr ''iceberg'')
              (PStr ''default'') # evs) \<and>
         snd (insert_csv_to_iceberg env csv_path table_name config_path) =
           (case snd (get_table_columns env table_name) of
              Inl e \<Rightarrow> Inl e
            | Inr cols \<Rightarrow> Inr ())"
  using assms
  by (simp add: insert_csv_to_iceberg_def connect_args_def Let_def
           split: prod.splits sum.splits)

theorem missing_trino_section_defaults_witness:
  "(\<exists>evs. fst (insert_csv_to_iceberg example_env ''purchases.csv'' ''t'' ''empty.json'') =
            Connect (PStr ''localhost'') (PInt 8080) (PStr ''trino'') (PStr ''iceberg'')
              (PStr ''default'') # evs) \<and>
   snd (insert_csv_to_iceberg example_env ''purchases.csv'' ''t'' ''empty.json'') = Inr ()"
proof -
  have cols: "get_table_columns example_env ''t''
                = ([Execute (columns_query None ''t'') []], Inr [''a'', ''b''])"
    by (rule get_table_columns_found [where schema = None and table = "''t''"])
       (simp_all add: parse_table_name_def example_fetch_t)
  have m: "map_of [] ''trino'' = (None :: pyval option)" by simp
  show ?thesis
    using missing_trino_section_defaults
            [OF example_load_empty m example_csv_purchases, of "''t''"]
    by (simp add: cols)
qed


section \<open>The row inserter: how many columns are bound\<close>

text \<open>
  C2. In a run that gets past the schema discovery, the list of bound columns is fixed
  before the first row is read: it is the discovered list, cut down to the number of CSV
  columns when it is longer, and then a warning is printed and the run goes on. Its length
  is the smaller of the two counts, every INSERT of the run binds that many values, and the
  run ends without an error.
\<close>

theorem bound_columns_min:
  assumes "load_config env config_path = Inr config"
    and "py_get config ''trino'' (PDict []) = Inr trino_config"
    and "pd_read_csv env csv_path = Some df"
    and "connect_args trino_config = Inr conn"
    and "get_table_columns env table_name = (evs1, Inr discovered)"
  shows "let bound = (if ncols df < length discovered then take (ncols df) discovered
                      else discovered);
             df' = convert_date_columns env (enumerate 0 bound) df
         in length bound = min (length discovered) (ncols df) \<and>
            insert_csv_to_iceberg env csv_path table_name config_path =
              (conn # evs1 @ [Print_using_columns discovered]
                 @ (if ncols df < length discovered
                    then [Print_warning (length discovered) (ncols df)] else [])
                 @ map (\<lambda>row. Execute (insert_query table_name bound)
                                   (row_values row (length bound))) (rows df')
                 @ [Commit, Cursor_close, Conn_close, Print_success csv_path table_name,
                    Print_inserted (length (rows df')) (length bound)],
               Inr ()) \<and>
            (\<forall>row. length (row_values row (length bound))
                     = min (length discovered) (ncols df))"
  by (simp add: run_success [OF assms] truncate_columns_def Let_def length_row_values)

theorem bound_columns_min_witness:
  "insert_csv_to_iceberg example_env ''trades.csv'' ''sales.trades'' ''trino_config.yaml'' =
     ([Connect (PStr ''h'') (PInt 1) (PStr ''u'') (PStr ''c'') (PStr ''s''),
       Execute (columns_query (Some ''sales'') ''trades'') [],
       Print_using_columns [''Trade_Date'', ''settle_date'', ''note''],
       Print_warning 3 2,
       Execute (insert_query ''sales.trades'' [''Trade_Date'', ''settle_date''])
         [PDate 2023 1 15, PStr ''not-a-date''],
       Execute (insert_query ''sales.trades'' [''Trade_Date'', ''settle_date''])
         [PDate 2023 1 16, PStr ''2023-01-17''],
       Commit, Cursor_close, Conn_close,
       Print_success ''trades.csv'' ''sales.trades'',
       Print_inserted 2 2],
      Inr ())"
proof -
  have g: "py_get (PDict [(''trino'', PDict [(''host'', PStr ''h''), (''port'', PInt 1),
                                    (''user'', PStr ''u''), (''catalog'', PStr ''c''),
                                    (''schema'', PStr ''s'')])]) ''trino'' (PDict [])
             = Inr (PDict [(''host'', PStr ''h''), (''port'', PInt 1), (''user'', PStr ''u''),
                           (''catalog'', PStr ''c''), (''schema'', PStr ''s'')])"
    by simp
  have rv: "\<And>x y. row_values [x, y] (Suc (Suc 0)) = [x, y]"
    by (simp add: row_values_def)
  let ?df = "\<lparr>ncols = 2,
              rows = [[PStr ''2023-01-15'', PStr ''not-a-date''],
                      [PStr ''2023-01-16'', PStr ''2023-01-17'']]\<rparr>"
  have t: "(if ncols ?df < length [''Trade_Date'', ''settle_date'', ''note'']
            then take (ncols ?df) [''Trade_Date'', ''settle_date'', ''note'']
            else [''Trade_Date'', ''settle_date'', ''note''])
             = [''Trade_Date'', ''settle_date'']"
    by simp
  show ?thesis
    using bound_columns_min [OF example_load_trino g example_csv_trades example_trino_connect
            example_trades_columns]
    unfolding Let_def t example_trades_converted
    by (simp add: rv)
qed

section \<open>The row inserter: rows of a rectangular frame\<close>

text \<open>
  C10. On a rectangular frame (every row has as many entries as the frame has columns,
  which is what pandas hands over), the bound column list is no longer than the frame is
  wide once it has been truncated, and this stays so through the date conversion. So for
  every row that is bound, every index below the number of bound columns lies inside the
  row, and the bound values are the first entries of the row: no position is filled with
  \<open>PNone\<close> by the test in line 100.
\<close>

theorem fallback_never_taken:
  assumes "rectangular df"
    and "bound = snd (truncate_columns discovered df)"
    and "df' = convert_date_columns env (enumerate 0 bound) df"
  shows "length bound \<le> ncols df' \<and>
         (\<forall>row \<in> set (rows df').
            (\<forall>i < length bound. i < length row) \<and>
            row_values row (length bound) = take (length bound) row)"
proof -
  have n: "ncols df' = ncols df"
    by (simp add: assms(3) ncols_convert_date_columns)
  have le: "length bound \<le> ncols df"
    by (simp add: assms(2) truncate_columns_def)
  have "rectangular df'"
    by (simp add: assms(1,3) rectangular_convert_date_columns)
  then have len: "\<And>row. row \<in> set (rows df') \<Longrightarrow> length row = ncols df"
    by (simp add: rectangular_def list_all_iff n)
  show ?thesis
    using n le len by (auto simp: row_values_long)
qed

theorem fallback_never_taken_witness:
  "length [''Trade_Date'', ''settle_date'']
     \<le> ncols \<lparr>ncols = 2,
               rows = [[PDate 2023 1 15, PStr ''not-a-date''],
                       [PDate 2023 1 16, PStr ''2023-01-17'']]\<rparr> \<and>
   row_values [PDate 2023 1 15, PStr ''not-a-date''] 2
     = [PDate 2023 1 15, PStr ''not-a-date''] \<and>
   row_values [PDate 2023 1 16, PStr ''2023-01-17''] 2
     = [PDate 2023 1 16, PStr ''2023-01-17'']"
proof -
  let ?df = "\<lparr>ncols = 2,
              rows = [[PStr ''2023-01-15'', PStr ''not-a-date''],
                      [PStr ''2023-01-16'', PStr ''2023-01-17'']]\<rparr>"
  have r: "rectangular ?df"
    by (simp add: rectangular_def)
  have b: "[''Trade_Date'', ''settle_date'']
             = snd (truncate_columns [''Trade_Date'', ''settle_date'', ''note''] ?df)"
    by (simp add: truncate_columns_def)
  show ?thesis
    using fallback_never_taken [OF r b example_trades_converted [symmetric]]
    by (simp add: numeral_2_eq_2)
qed


section \<open>The schema discoverer: what it returns\<close>

text \<open>
  C7. The discoverer never returns an empty column list. It fails with the "not found or
  has no columns" error exactly when the table name could be parsed and the metadata query
  delivered no row. When the query delivers rows (of one field or more each), the result is
  the first field of every row, in the order the cursor delivered them; the query text ends
  with \<^verbatim>\<open>ORDER BY ordinal_position\<close>, so that order is the catalog's ordinal position.
\<close>

theorem get_table_columns_result:
  "snd (get_table_columns env name) \<noteq> Inr [] \<and>
   (snd (get_table_columns env name)
      = Inl (ValueError (''Table '' @ name @ '' not found or has no columns''))
    \<longleftrightarrow> (\<exists>schema table. parse_table_name name = Inr (schema, table) \<and>
                          cursor_fetchall env (columns_query schema table) = [])) \<and>
   (parse_table_name name = Inr (schema, table) \<and>
    cursor_fetchall env (columns_query schema table) = rs \<and>
    rs \<noteq> [] \<and> list_all (\<lambda>r. r \<noteq> []) rs \<longrightarrow>
      get_table_columns env name
        = ([Execute (columns_query schema table) []], Inr (map hd rs))) \<and>
   (\<exists>pre. columns_query schema table
            = pre @ ''ORDER BY ordinal_position'' @ [CHR 0x0A] @ ''    '')"
  using get_table_columns_nonempty [of env name]
        get_table_columns_not_found_iff [of env name]
        get_table_columns_rows [of name schema table env rs]
        columns_query_order_by [of schema table]
  by blast

theorem get_table_columns_result_witness:
  "snd (get_table_columns example_env ''sales.trades'') \<noteq> Inr [] \<and>
   snd (get_table_columns example_env ''missing'')
     = Inl (ValueError ''Table missing not found or has no columns'') \<and>
   get_table_columns example_env ''sales.trades''
     = ([Execute (columns_query (Some ''sales'') ''trades'') []],
        Inr [''Trade_Date'', ''settle_date'', ''note''])"
proof -
  have p: "parse_table_name ''missing'' = Inr (None, ''missing'')"
    by (simp add: parse_table_name_def)
  have f: "cursor_fetchall example_env (columns_query None ''missing'') = []"
    by (simp add: example_env_def columns_query_def)
  have m: "\<exists>schema table. parse_table_name ''missing'' = Inr (schema, table) \<and>
             cursor_fetchall example_env (columns_query schema table) = []"
    using p f by blast
  have a: "snd (get_table_columns example_env ''missing'')
             = Inl (ValueError ''Table missing not found or has no columns'')"
    using get_table_columns_result [of example_env "''missing''" None "''missing''" "[]"] m
    by simp
  have b: "snd (get_table_columns example_env ''sales.trades'') \<noteq> Inr [] \<and>
           get_table_columns example_env ''sales.trades''
             = ([Execute (columns_query (Some ''sales'') ''trades'') []],
                Inr [''Trade_Date'', ''settle_date'', ''note''])"
    using get_table_columns_result
            [of example_env "''sales.trades''" "Some ''sales''" "''trades''"
                "[[''Trade_Date''], [''settle_date''], [''note'']]"]
    by (simp add: example_trades_parse example_fetch_trades)
  show ?thesis using a b by simp
qed

section \<open>The row inserter: date columns\<close>

text \<open>
  C4. Take a run that gets past the schema discovery, on a rectangular frame, with a date
  conversion that returns one value per row when it succeeds. For every bound column whose
  lower-cased name contains \<^verbatim>\<open>date\<close>, the values at that position are handed to the
  conversion: if it succeeds, the column holds its results when the rows are bound; if it
  raises, the column holds what it held before. Every other column is unchanged. Whatever
  the conversion does, the run binds the rows of the frame so obtained and ends without an
  error.
\<close>

theorem date_columns_best_effort:
  assumes "load_config env config_path = Inr config"
    and "py_get config ''trino'' (PDict []) = Inr trino_config"
    and "pd_read_csv env csv_path = Some df"
    and "connect_args trino_config = Inr conn"
    and "get_table_columns env table_name = (evs1, Inr discovered)"
    and "rectangular df"
    and "keeps_index env"
    and "bound = snd (truncate_columns discovered df)"
    and "df' = convert_date_columns env (enumerate 0 bound) df"
  shows "(\<forall>i < length bound.
            get_column df' i =
              (if str_contains ''date'' (str_lower (bound ! i)) then
                 (case pd_to_datetime_date env (get_column df i) of
                    None \<Rightarrow> get_column df i
                  | Some dates \<Rightarrow> dates)
               else get_column df i)) \<and>
         insert_csv_to_iceberg env csv_path table_name config_path =
           (conn # evs1 @ [Print_using_columns discovered]
              @ fst (truncate_columns discovered df)
              @ map (\<lambda>row. Execute (insert_query table_name bound) (take (length bound) row))
                  (rows df')
              @ [Commit, Cursor_close, Conn_close, Print_success csv_path table_name,
                 Print_inserted (length (rows df)) (length bound)],
            Inr ())"
proof (intro conjI allI impI)
  fix i
  assume i: "i < length bound"
  have "length bound \<le> ncols df"
    by (simp add: assms(8) truncate_columns_def)
  then have "i < ncols df" using i by simp
  then show "get_column df' i =
              (if str_contains ''date'' (str_lower (bound ! i)) then
                 (case pd_to_datetime_date env (get_column df i) of
                    None \<Rightarrow> get_column df i
                  | Some dates \<Rightarrow> dates)
               else get_column df i)"
    using convert_date_columns_enumerate [OF assms(7) assms(6), of 0 i bound] i
    by (simp add: assms(9))
next
  have le: "length bound \<le> ncols df"
    by (simp add: assms(8) truncate_columns_def)
  have "rectangular df'"
    by (simp add: assms(6,9) rectangular_convert_date_columns)
  then have len: "\<And>row. row \<in> set (rows df') \<Longrightarrow> length row = ncols df"
    by (simp add: rectangular_def list_all_iff assms(9) ncols_convert_date_columns)
  have m: "map (\<lambda>row. Execute (insert_query table_name bound) (row_values row (length bound)))
             (rows df')
           = map (\<lambda>row. Execute (insert_query table_name bound) (take (length bound) row))
               (rows df')"
    using le len by (simp add: row_values_long)
  have n: "length (rows df') = length (rows df)"
    by (simp add: assms(7,9) length_rows_convert_date_columns)
  show "insert_csv_to_iceberg env csv_path table_name config_path =
           (conn # evs1 @ [Print_using_columns discovered]
              @ fst (truncate_columns discovered df)
              @ map (\<lambda>row. Execute (insert_query table_name bound) (take (length bound) row))
                  (rows df')
              @ [Commit, Cursor_close, Conn_close, Print_success csv_path table_name,
                 Print_inserted (length (rows df)) (length bound)],
            Inr ())"
    unfolding run_success [OF assms(1-5)] Let_def assms(8) [symmetric] assms(9) [symmetric] m n
    ..
qed

theorem date_columns_best_effort_witness:
  "get_column \<lparr>ncols = 2,
               rows = [[PDate 2023 1 15, PStr ''not-a-date''],
                       [PDate 2023 1 16, PStr ''2023-01-17'']]\<rparr> 0
     = [PDate 2023 1 15, PDate 2023 1 16] \<and>
   get_column \<lparr>ncols = 2,
               rows = [[PDate 2023 1 15, PStr ''not-a-date''],
                       [PDate 2023 1 16, PStr ''2023-01-17'']]\<rparr> 1
     = [PStr ''not-a-date'', PStr ''2023-01-17''] \<and>
   snd (insert_csv_to_iceberg example_env ''trades.csv'' ''sales.trades'' ''trino_config.yaml'')
     = Inr ()"
proof -
  let ?df = "\<lparr>ncols = 2,
              rows = [[PStr ''2023-01-15'', PStr ''not-a-date''],
                      [PStr ''2023-01-16'', PStr ''2023-01-17'']]\<rparr>"
  have g: "py_get (PDict [(''trino'', PDict [(''host'', PStr ''h''), (''port'', PInt 1),
                                    (''user'', PStr ''u''), (''catalog'', PStr ''c''),
                                    (''schema'', PStr ''s'')])]) ''trino'' (PDict [])
             = Inr (PDict [(''host'', PStr ''h''), (''port'', PInt 1), (''user'', PStr ''u''),
                           (''catalog'', PStr ''c''), (''schema'', PStr ''s'')])"
    by simp
  have r: "rectangular ?df"
    by (simp add: rectangular_def)
  have b: "[''Trade_Date'', ''settle_date'']
             = snd (truncate_columns [''Trade_Date'', ''settle_date'', ''note''] ?df)"
    by (simp add: truncate_columns_def)
  have o0: "pd_to_datetime_date example_env (get_column ?df 0)
              = Some [PDate 2023 1 15, PDate 2023 1 16]"
    by (simp add: get_column_def example_env_def)
  have o1: "pd_to_datetime_date example_env [PStr ''not-a-date'', PStr ''2023-01-17''] = None"
    by (simp add: example_env_def)
  have g1: "get_column ?df (Suc 0) = [PStr ''not-a-date'', PStr ''2023-01-17'']"
    by (simp add: get_column_def)
  note th = date_columns_best_effort [OF example_load_trino g example_csv_trades
              example_trino_connect example_trades_columns r example_keeps_index b
              example_trades_converted [symmetric]]
  have c0: "get_column \<lparr>ncols = 2,
               rows = [[PDate 2023 1 15, PStr ''not-a-date''],
                       [PDate 2023 1 16, PStr ''2023-01-17'']]\<rparr> 0
              = [PDate 2023 1 15, PDate 2023 1 16]"
    using conjunct1 [OF th, rule_format, of 0]
    by (simp add: date_in_Trade_Date o0)
  have c1: "get_column \<lparr>ncols = 2,
               rows = [[PDate 2023 1 15, PStr ''not-a-date''],
                       [PDate 2023 1 16, PStr ''2023-01-17'']]\<rparr> 1
              = [PStr ''not-a-date'', PStr ''2023-01-17'']"
    using conjunct1 [OF th, rule_format, of 1]
    by (simp add: date_in_settle_date o1 g1)
  have c2: "snd (insert_csv_to_iceberg example_env ''trades.csv'' ''sales.trades''
                   ''trino_config.yaml'') = Inr ()"
    using conjunct2 [OF th] by simp
  show ?thesis using c0 c1 c2 by simp
qed

end
